theory Spec2Isabelle
  imports Main "HOL-Library.Sublist" "HOL-Library.AList"
begin

section \<open>The dynamic tool registration server (src/mcp/server.py)\<close>

text \<open>
  The server reads a JSON file of tool descriptors, executes each descriptor's script in
  one module-level namespace (\<open>_mcp_tools_namespace\<close>), looks the declared name up in
  that namespace and hands the object found to FastMCP's tool table. The Python
  interpreter (\<open>exec\<close>) and FastMCP's own validation of a callable are not part of the
  repository: they are parameters of the model, gathered in the record \<open>runtime\<close>
  together with the \<open>DEBUG\<close> environment variable.
\<close>

subsection \<open>Python strings\<close>

definition startswith :: "string \<Rightarrow> string \<Rightarrow> bool" where
  "startswith s p = prefix p s"

definition endswith :: "string \<Rightarrow> string \<Rightarrow> bool" where
  "endswith s p = suffix p s"

text \<open>
  \<open>s.replace(old, new)\<close> replaces every occurrence of \<open>old\<close>, scanning from the left over
  non-overlapping matches. For an empty \<open>old\<close> Python inserts \<open>new\<close> before every character
  and at the end.
\<close>

fun replace_nonempty :: "string \<Rightarrow> string \<Rightarrow> string \<Rightarrow> string" where
  "replace_nonempty old new [] = []"
| "replace_nonempty old new (c # cs) =
     (if old \<noteq> [] \<and> prefix old (c # cs)
      then new @ replace_nonempty old new (drop (length old) (c # cs))
      else c # replace_nonempty old new cs)"

definition replace :: "string \<Rightarrow> string \<Rightarrow> string \<Rightarrow> string" where
  "replace s old new =
     (if old = [] then new @ concat (map (\<lambda>c. c # new) s)
      else replace_nonempty old new s)"

fun join :: "string \<Rightarrow> string list \<Rightarrow> string" where
  "join sep [] = []"
| "join sep [x] = x"
| "join sep (x # y # ys) = x @ sep @ join sep (y # ys)"

text \<open>Lines 37 to 40 of \<open>register_tool_from_script\<close>: the two fence markers are removed
  with \<open>str.replace\<close>, each guarded by a test at one end of the text.\<close>

definition strip_code_fence :: "string \<Rightarrow> string" where
  "strip_code_fence script_content =
     (let s1 = (if startswith script_content ''```python''
                then replace script_content ''```python'' ''''
                else script_content)
      in if endswith s1 ''```'' then replace s1 ''```'' '''' else s1)"

subsection \<open>Python objects, exceptions and the server's state\<close>

text \<open>A signature is the ordered parameter list of a callable; the flag says whether the
  parameter is required (has no default).\<close>

type_synonym signature = "(string \<times> bool) list"

text \<open>
  The objects a script can leave in the namespace, as far as the server tells them apart:
  \<open>None\<close>, an object that is not callable (given by its \<open>repr\<close>), and a callable (given
  by a label that identifies it, and the signature \<open>inspect.signature\<close> finds, if any).
\<close>

datatype pyobj =
    PyNone
  | PyData string
  | PyCallable string "signature option"

text \<open>
  What a \<open>raise\<close> carries. \<open>except Exception\<close> catches the instances of \<open>Exception\<close> and
  its subclasses; \<open>SystemExit\<close>, \<open>KeyboardInterrupt\<close> and \<open>GeneratorExit\<close> derive from
  \<open>BaseException\<close> only and pass through it.
\<close>

datatype py_raise =
    Exception string
  | BaseException string

type_synonym namespace = "string \<rightharpoonup> pyobj"

record tool =
  tool_name :: string
  tool_description :: string
  tool_fn :: pyobj
  tool_signature :: signature

datatype channel = Stdout | Stderr

text \<open>
  The mutable state of the process: the shared namespace, FastMCP's tool table (a Python
  dict, which keeps insertion order: an association list updated in place) and the text
  written so far, each line with the channel it went to.
\<close>

record server =
  namespace :: namespace
  tools :: "(string \<times> tool) list"
  printed :: "(channel \<times> string) list"

definition initial_server :: server where
  "initial_server = \<lparr>namespace = Map.empty, tools = [], printed = []\<rparr>"

text \<open>
  The parts of the run-time environment the repository does not define:
  \<^item> \<open>py_exec src ns\<close> is \<open>exec(src, ns)\<close>: the exception raised, if any, and the namespace
    as the script left it (a script that raises keeps what it had bound before);
  \<^item> \<open>mcp_rejects fn name description\<close> is the error message with which FastMCP refuses to
    build a tool from the callable, if it does;
  \<^item> \<open>env_DEBUG\<close> is \<open>os.getenv("DEBUG")\<close>.
\<close>

record runtime =
  py_exec :: "string \<Rightarrow> namespace \<Rightarrow> py_raise option \<times> namespace"
  mcp_rejects :: "pyobj \<Rightarrow> string \<Rightarrow> string \<Rightarrow> string option"
  env_DEBUG :: "string option"

text \<open>\<open>if os.getenv("DEBUG")\<close>: the variable is set and not the empty string.\<close>

definition debug_on :: "runtime \<Rightarrow> bool" where
  "debug_on rt = (case env_DEBUG rt of None \<Rightarrow> False | Some v \<Rightarrow> v \<noteq> [])"

definition print_to :: "channel \<Rightarrow> string \<Rightarrow> server \<Rightarrow> server" where
  "print_to ch line st = st\<lparr>printed := printed st @ [(ch, line)]\<rparr>"

definition debug_print :: "runtime \<Rightarrow> string \<Rightarrow> server \<Rightarrow> server" where
  "debug_print rt line st = (if debug_on rt then print_to Stderr line st else st)"

text \<open>\<open>traceback.print_exc(file=sys.stderr)\<close>, the stack frames left out.\<close>

definition print_exc :: "string \<Rightarrow> server \<Rightarrow> server" where
  "print_exc msg st = print_to Stderr (''Traceback (most recent call last): '' @ msg) st"

subsection \<open>The library calls\<close>

text \<open>\<open>inspect.signature(obj)\<close> raises \<open>TypeError\<close> on an object that is not callable and
  \<open>ValueError\<close> on a callable whose signature it cannot find.\<close>

fun repr :: "pyobj \<Rightarrow> string" where
  "repr PyNone = ''None''"
| "repr (PyData r) = r"
| "repr (PyCallable label sg) = ''<function '' @ label @ ''>''"

fun inspect_signature :: "pyobj \<Rightarrow> string + signature" where
  "inspect_signature (PyCallable label (Some sg)) = Inr sg"
| "inspect_signature (PyCallable label None) =
     Inl (''no signature found for '' @ repr (PyCallable label None))"
| "inspect_signature obj = Inl (repr obj @ '' is not a callable object'')"

text \<open>\<open>str(sig)\<close>; the default value of an optional parameter is not kept in the model.\<close>

definition str_signature :: "signature \<Rightarrow> string" where
  "str_signature sg =
     ''('' @ join '', '' (map (\<lambda>(p, required). if required then p else p @ ''=...'') sg) @ '')''"

text \<open>
  Modelled from the spec: FastMCP's tool table is not under src/. Section 4.3 gives its
  contract: \<open>register(name, description, callable, signature)\<close> is an upsert, last write
  wins per name. \<open>AList.update\<close> is the assignment \<open>d[name] = tool\<close> of a Python dict: an
  existing key keeps its place, a new key goes to the end.
\<close>

definition mcp_tool ::
  "runtime \<Rightarrow> pyobj \<Rightarrow> signature \<Rightarrow> string \<Rightarrow> string \<Rightarrow> (string \<times> tool) list
     \<Rightarrow> string + (string \<times> tool) list" where
  "mcp_tool rt fn sg name description table =
     (case mcp_rejects rt fn name description of
        Some msg \<Rightarrow> Inl msg
      | None \<Rightarrow>
          Inr (AList.update name
                 \<lparr>tool_name = name, tool_description = description,
                  tool_fn = fn, tool_signature = sg\<rparr> table))"

text \<open>\<open>await mcp.get_tools()\<close>, iterated: the registered names in the table's order.\<close>

definition get_tools :: "server \<Rightarrow> string list" where
  "get_tools st = map fst (tools st)"

subsection \<open>The registry file\<close>

text \<open>
  A descriptor is a JSON object whose fields, when present, are strings (section 6 of the
  specification); \<open>None\<close> is a missing key. Any other JSON value met where a descriptor is
  expected is \<open>NonObject\<close>: it has no \<open>get\<close> method.
\<close>

record script_info =
  si_name :: "string option"
  si_description :: "string option"
  si_script_content :: "string option"

datatype json_item = Object script_info | NonObject

text \<open>
  What \<open>json.load\<close> returned, as the \<open>for\<close> loop sees it: the items an iteration yields
  (the elements of an array, the characters of a string, the keys of an object, none of
  the last two an object), or a value that cannot be iterated (a number, a boolean,
  \<open>null\<close>).
\<close>

datatype json_value = Iterable "json_item list" | NotIterable

text \<open>Opening and parsing the file: the two exceptions \<open>register_tools\<close> names, any other
  exception (a permission or decoding error), or the parsed value.\<close>

datatype load_outcome =
    FileNotFoundError
  | JSONDecodeError
  | LoadError string
  | Loaded json_value

subsection \<open>register\_tool\_from\_script\<close>

text \<open>\<open>d.get(key, default)\<close> on a descriptor field.\<close>

definition get_default :: "string option \<Rightarrow> string \<Rightarrow> string" where
  "get_default field dflt = (case field of None \<Rightarrow> dflt | Some v \<Rightarrow> v)"

text \<open>\<open>_mcp_tools_namespace.get(name, None)\<close>.\<close>

definition namespace_get :: "namespace \<Rightarrow> string \<Rightarrow> pyobj" where
  "namespace_get ns name = (case ns name of None \<Rightarrow> PyNone | Some obj \<Rightarrow> obj)"

text \<open>
  Lines 61 to 79: the signature is inspected, the tool is handed to FastMCP, and any
  exception of the two is caught. The traceback of line 79 is printed whatever \<open>DEBUG\<close>
  says.
\<close>

definition register_resolved :: "runtime \<Rightarrow> string \<Rightarrow> string \<Rightarrow> pyobj \<Rightarrow> server \<Rightarrow> server" where
  "register_resolved rt name description tool_function st =
     (case inspect_signature tool_function of
        Inl msg \<Rightarrow>
          print_exc msg
            (debug_print rt (''Error registering tool '' @ [CHR 0x27] @ name @ [CHR 0x27] @ '': '' @ msg) st)
      | Inr sg \<Rightarrow>
          (let st1 = debug_print rt
                       (''Function signature for '' @ name @ '': '' @ str_signature sg) st
           in case mcp_tool rt tool_function sg name description (tools st1) of
                Inl msg \<Rightarrow>
                  print_exc msg
                    (debug_print rt
                       (''Error registering tool '' @ [CHR 0x27] @ name @ [CHR 0x27] @ '': '' @ msg) st1)
              | Inr table \<Rightarrow>
                  debug_print rt
                    (''Tool '' @ [CHR 0x27] @ name @ [CHR 0x27] @ '' registered successfully.'')
                    (st1\<lparr>tools := table\<rparr>)))"

text \<open>
  The whole function. The result is the exception that leaves the function, if any, and
  the state of the process at that moment. \<open>script_info.get\<close> on a value that is not an
  object raises \<open>AttributeError\<close> outside every \<open>try\<close>; an exception of the script that
  does not derive from \<open>Exception\<close> passes the handler of line 48.
\<close>

fun register_tool_from_script :: "runtime \<Rightarrow> json_item \<Rightarrow> server \<Rightarrow> py_raise option \<times> server" where
  "register_tool_from_script rt NonObject st =
     (Some (Exception ''object has no attribute get''), st)"
| "register_tool_from_script rt (Object info) st =
     (let name = get_default (si_name info) ''UnnamedTool'';
          description = get_default (si_description info) ''No description provided.'';
          script_content = strip_code_fence (get_default (si_script_content info) '''');
          st1 = debug_print rt (''Registering tool: '' @ name) st
      in case py_exec rt script_content (namespace st1) of
           (Some (BaseException msg), ns) \<Rightarrow>
             (Some (BaseException msg), st1\<lparr>namespace := ns\<rparr>)
         | (Some (Exception msg), ns) \<Rightarrow>
             (None,
              if debug_on rt
              then print_exc msg
                     (print_to Stderr
                        (''Error executing script for tool '' @ [CHR 0x27] @ name @ [CHR 0x27] @ '': '' @ msg)
                        (st1\<lparr>namespace := ns\<rparr>))
              else st1\<lparr>namespace := ns\<rparr>)
         | (None, ns) \<Rightarrow>
             (let st2 = st1\<lparr>namespace := ns\<rparr>;
                  tool_function = namespace_get ns name
              in if tool_function = PyNone
                 then (None,
                       debug_print rt
                         (''Tool function '' @ [CHR 0x27] @ name @ [CHR 0x27] @ '' not found in script content.'')
                         st2)
                 else (None, register_resolved rt name description tool_function st2)))"

subsection \<open>register\_tools and the main program\<close>

text \<open>The \<open>for\<close> loop of lines 91 and 92: an exception that leaves one call ends the loop.\<close>

fun register_loop :: "runtime \<Rightarrow> json_item list \<Rightarrow> server \<Rightarrow> py_raise option \<times> server" where
  "register_loop rt [] st = (None, st)"
| "register_loop rt (item # items) st =
     (case register_tool_from_script rt item st of
        (None, st1) \<Rightarrow> register_loop rt items st1
      | (Some e, st1) \<Rightarrow> (Some e, st1))"

text \<open>The \<open>try\<close> block of \<open>register_tools\<close> with its three handlers.\<close>

definition load_and_register ::
  "runtime \<Rightarrow> string \<Rightarrow> load_outcome \<Rightarrow> server \<Rightarrow> py_raise option \<times> server" where
  "load_and_register rt script_info_path loaded st =
     (case loaded of
        FileNotFoundError \<Rightarrow>
          (None, debug_print rt (''Script info file not found: '' @ script_info_path) st)
      | JSONDecodeError \<Rightarrow>
          (None,
           debug_print rt
             (''Error decoding JSON from script info file: '' @ script_info_path) st)
      | LoadError msg \<Rightarrow>
          (None,
           debug_print rt (''An unexpected error occurred while registering tools: '' @ msg) st)
      | Loaded NotIterable \<Rightarrow>
          (None,
           debug_print rt
             (''An unexpected error occurred while registering tools: object is not iterable'')
             st)
      | Loaded (Iterable script_info_list) \<Rightarrow>
          (case register_loop rt script_info_list st of
             (None, st1) \<Rightarrow> (None, st1)
           | (Some (Exception msg), st1) \<Rightarrow>
               (None,
                debug_print rt
                  (''An unexpected error occurred while registering tools: '' @ msg) st1)
           | (Some (BaseException msg), st1) \<Rightarrow> (Some (BaseException msg), st1)))"

definition register_tools ::
  "runtime \<Rightarrow> string \<Rightarrow> load_outcome \<Rightarrow> server \<Rightarrow> py_raise option \<times> server" where
  "register_tools rt script_info_path loaded st =
     (case load_and_register rt script_info_path loaded st of
        (Some e, st1) \<Rightarrow> (Some e, st1)
      | (None, st1) \<Rightarrow>
          (let st2 = debug_print rt ''All tools registered successfully.'' st1;
               mcp_tools = get_tools st2
           in (None, debug_print rt (''Registered tools: '' @ join '', '' mcp_tools) st2)))"

text \<open>
  The main program: \<open>asyncio.run(register_tools(path))\<close>, then \<open>mcp.run()\<close>, which serves
  the tool table. An exception that leaves \<open>register_tools\<close> ends the process before
  \<open>mcp.run()\<close>.
\<close>

datatype process = Serving server | Exited py_raise

definition main :: "runtime \<Rightarrow> string \<Rightarrow> load_outcome \<Rightarrow> process" where
  "main rt script_info_path loaded =
     (case register_tools rt script_info_path loaded initial_server of
        (None, st) \<Rightarrow> Serving st
      | (Some e, st) \<Rightarrow> Exited e)"

text \<open>\<open>registerAll\<close> of the specification: \<open>register_tools\<close> on a file that holds an array
  of descriptors.\<close>

definition registerAll :: "runtime \<Rightarrow> string \<Rightarrow> script_info list \<Rightarrow> server \<Rightarrow> py_raise option \<times> server" where
  "registerAll rt script_info_path ds st =
     register_tools rt script_info_path (Loaded (Iterable (map Object ds))) st"

subsection \<open>Notions used in the statements\<close>

text \<open>The three values \<open>register_tool_from_script\<close> reads from a descriptor.\<close>

definition name_of :: "script_info \<Rightarrow> string" where
  "name_of info = get_default (si_name info) ''UnnamedTool''"

definition description_of :: "script_info \<Rightarrow> string" where
  "description_of info = get_default (si_description info) ''No description provided.''"

definition script_of :: "script_info \<Rightarrow> string" where
  "script_of info = strip_code_fence (get_default (si_script_content info) '''')"

text \<open>Python's \<open>callable(obj)\<close>.\<close>

fun callable :: "pyobj \<Rightarrow> bool" where
  "callable (PyCallable label sg) = True"
| "callable obj = False"

text \<open>The state in which the loop reaches descriptor \<open>i\<close> of the batch \<open>ds\<close>.\<close>

definition state_before :: "runtime \<Rightarrow> script_info list \<Rightarrow> server \<Rightarrow> nat \<Rightarrow> server" where
  "state_before rt ds st i = snd (register_loop rt (map Object (take i ds)) st)"

text \<open>The script of a descriptor raises when it is executed in the state \<open>s\<close>.\<close>

definition raises_at :: "runtime \<Rightarrow> script_info \<Rightarrow> server \<Rightarrow> bool" where
  "raises_at rt info s = (fst (py_exec rt (script_of info) (namespace s)) \<noteq> None)"

text \<open>The script of a descriptor, executed in the state \<open>s\<close>, raises an exception that
  does not derive from \<open>Exception\<close>.\<close>

definition escapes_at :: "runtime \<Rightarrow> script_info \<Rightarrow> server \<Rightarrow> bool" where
  "escapes_at rt info s =
     (case fst (py_exec rt (script_of info) (namespace s)) of
        Some (BaseException msg) \<Rightarrow> True
      | _ \<Rightarrow> False)"

text \<open>The entry the call of line 68 makes for a descriptor processed in the state \<open>s\<close>:
  the declared name, the description, and the object the script left under the name with
  its signature.\<close>

definition tool_of :: "runtime \<Rightarrow> script_info \<Rightarrow> server \<Rightarrow> tool" where
  "tool_of rt info s =
     (let fn = namespace_get (snd (py_exec rt (script_of info) (namespace s))) (name_of info)
      in \<lparr>tool_name = name_of info, tool_description = description_of info, tool_fn = fn,
          tool_signature = (case inspect_signature fn of Inr sg \<Rightarrow> sg | Inl msg \<Rightarrow> [])\<rparr>)"

text \<open>
  A descriptor is valid in the state \<open>s\<close>: its script runs to the end there, leaves the
  declared name bound to a callable with a signature, and FastMCP accepts the callable.
\<close>

definition valid_at :: "runtime \<Rightarrow> script_info \<Rightarrow> server \<Rightarrow> bool" where
  "valid_at rt info s =
     (case py_exec rt (script_of info) (namespace s) of
        (Some e, ns) \<Rightarrow> False
      | (None, ns) \<Rightarrow>
          (case namespace_get ns (name_of info) of
             PyCallable label (Some sg) \<Rightarrow>
               mcp_rejects rt (PyCallable label (Some sg)) (name_of info) (description_of info) = None
           | _ \<Rightarrow> False))"

text \<open>
  The registry file cannot be read as a sequence of descriptors: it is missing, it is not
  JSON, reading it fails otherwise, or its top-level value is no array of objects (a
  number, a boolean, \<open>null\<close>, or a string, an object or an array none of whose items is
  an object).
\<close>

fun unreadable_registry :: "load_outcome \<Rightarrow> bool" where
  "unreadable_registry FileNotFoundError = True"
| "unreadable_registry JSONDecodeError = True"
| "unreadable_registry (LoadError msg) = True"
| "unreadable_registry (Loaded NotIterable) = True"
| "unreadable_registry (Loaded (Iterable items)) = list_all (\<lambda>item. item = NonObject) items"

text \<open>The lines written to one channel, in order.\<close>

definition written_to :: "channel \<Rightarrow> server \<Rightarrow> string list" where
  "written_to ch st = map snd (filter (\<lambda>entry. fst entry = ch) (printed st))"

subsection \<open>A run-time environment for the examples\<close>

text \<open>\<open>exec\<close> inserts the key \<open>__builtins__\<close> into a namespace that lacks it.\<close>

definition with_builtins :: "namespace \<Rightarrow> namespace" where
  "with_builtins ns =
     (if ns ''__builtins__'' = None
      then ns(''__builtins__'' \<mapsto> PyData ''<module builtins>'')
      else ns)"

text \<open>
  What \<open>exec\<close> does on the scripts of the examples below. No example uses a script
  outside the table; the last line only makes the function total.
\<close>

definition example_exec :: "string \<Rightarrow> namespace \<Rightarrow> py_raise option \<times> namespace" where
  "example_exec src ns0 =
     (let ns = with_builtins ns0 in
      if src = '''' then (None, ns)
      else if src = ''def add(a, b): return a + b''
      then (None, ns(''add'' \<mapsto> PyCallable ''add/1'' (Some [(''a'', True), (''b'', True)])))
      else if src = ''def add(a, b, c=0): return a + b + c''
      then (None,
            ns(''add'' \<mapsto> PyCallable ''add/2'' (Some [(''a'', True), (''b'', True), (''c'', False)])))
      else if src = ''def mul(a, b): return a * b''
      then (None, ns(''mul'' \<mapsto> PyCallable ''mul'' (Some [(''a'', True), (''b'', True)])))
      else if src = ''def totl(xs): return sum(xs)''
      then (None, ns(''totl'' \<mapsto> PyCallable ''totl'' (Some [(''xs'', True)])))
      else if src = ''def total(xs): return sum(xs)'' @ [CHR 10] @
                    ''def mean(xs): return total(xs) / len(xs)''
      then (None, ns(''total'' \<mapsto> PyCallable ''total'' (Some [(''xs'', True)]),
                     ''mean'' \<mapsto> PyCallable ''mean'' (Some [(''xs'', True)])))
      else if src = ''config = 5'' then (None, ns(''config'' \<mapsto> PyData ''5''))
      else if src = ''add = None'' then (None, ns(''add'' \<mapsto> PyNone))
      else if src = ''def bad(: syntax error'' then (Some (Exception ''invalid syntax''), ns)
      else (Some (Exception ''invalid syntax''), ns))"

text \<open>The same interpreter, with a script that leaves it.\<close>

definition exiting_exec :: "string \<Rightarrow> namespace \<Rightarrow> py_raise option \<times> namespace" where
  "exiting_exec src ns0 =
     (if src = ''raise SystemExit'' then (Some (BaseException ''SystemExit''), with_builtins ns0)
      else example_exec src ns0)"

definition example_rt :: runtime where
  "example_rt =
     \<lparr>py_exec = example_exec, mcp_rejects = (\<lambda>fn name description. None), env_DEBUG = None\<rparr>"

definition exiting_rt :: runtime where
  "exiting_rt = example_rt\<lparr>py_exec := exiting_exec\<rparr>"

definition add_tool :: script_info where
  "add_tool =
     \<lparr>si_name = Some ''add'', si_description = Some ''Add two numbers'',
      si_script_content = Some ''def add(a, b): return a + b''\<rparr>"

definition mul_tool :: script_info where
  "mul_tool =
     \<lparr>si_name = Some ''mul'', si_description = Some ''Multiply two numbers'',
      si_script_content = Some ''def mul(a, b): return a * b''\<rparr>"

definition bad_tool :: script_info where
  "bad_tool =
     \<lparr>si_name = Some ''bad'', si_description = Some ''Does not compile'',
      si_script_content = Some ''def bad(: syntax error''\<rparr>"

definition exit_tool :: script_info where
  "exit_tool =
     \<lparr>si_name = Some ''quit'', si_description = Some ''Leaves the interpreter'',
      si_script_content = Some ''raise SystemExit''\<rparr>"

definition config_tool :: script_info where
  "config_tool =
     \<lparr>si_name = Some ''config'', si_description = Some ''Settings'',
      si_script_content = Some ''config = 5''\<rparr>"

definition add3_tool :: script_info where
  "add3_tool =
     \<lparr>si_name = Some ''add'', si_description = Some ''Add up to three numbers'',
      si_script_content = Some ''def add(a, b, c=0): return a + b + c''\<rparr>"

definition none_tool :: script_info where
  "none_tool =
     \<lparr>si_name = Some ''add'', si_description = Some ''Switched off'',
      si_script_content = Some ''add = None''\<rparr>"

definition total_tool :: script_info where
  "total_tool =
     \<lparr>si_name = Some ''total'', si_description = Some ''Sum of a list'',
      si_script_content = Some ''def totl(xs): return sum(xs)''\<rparr>"

definition mean_tool :: script_info where
  "mean_tool =
     \<lparr>si_name = Some ''mean'', si_description = Some ''Mean of a list'',
      si_script_content =
        Some (''def total(xs): return sum(xs)'' @ [CHR 10] @
              ''def mean(xs): return total(xs) / len(xs)'')\<rparr>"

text \<open>A descriptor that has a name and nothing else.\<close>

definition bare_tool :: script_info where
  "bare_tool = \<lparr>si_name = Some ''add'', si_description = None, si_script_content = None\<rparr>"

section \<open>Properties\<close>

subsection \<open>Evaluation and the effect of printing\<close>

lemma endswith_rev: "endswith s p = prefix (rev p) (rev s)"
  by (simp add: endswith_def suffix_to_prefix)

lemma tools_print_to [simp]: "tools (print_to ch line st) = tools st"
  by (simp add: print_to_def)

lemma namespace_print_to [simp]: "namespace (print_to ch line st) = namespace st"
  by (simp add: print_to_def)

lemma tools_debug_print [simp]: "tools (debug_print rt line st) = tools st"
  by (simp add: debug_print_def)

lemma namespace_debug_print [simp]: "namespace (debug_print rt line st) = namespace st"
  by (simp add: debug_print_def)

lemma tools_print_exc [simp]: "tools (print_exc msg st) = tools st"
  by (simp add: print_exc_def)

lemma namespace_print_exc [simp]: "namespace (print_exc msg st) = namespace st"
  by (simp add: print_exc_def)

lemma namespace_register_resolved [simp]:
  "namespace (register_resolved rt name description fn st) = namespace st"
  by (simp add: register_resolved_def Let_def mcp_tool_def split: sum.splits option.splits)

lemma tools_register_resolved:
  "tools (register_resolved rt name description fn st) =
     (case inspect_signature fn of
        Inl msg \<Rightarrow> tools st
      | Inr sg \<Rightarrow>
          (case mcp_rejects rt fn name description of
             Some msg \<Rightarrow> tools st
           | None \<Rightarrow>
               AList.update name
                 \<lparr>tool_name = name, tool_description = description,
                  tool_fn = fn, tool_signature = sg\<rparr> (tools st)))"
  by (simp add: register_resolved_def Let_def mcp_tool_def split: sum.splits option.splits)

subsection \<open>One descriptor\<close>

lemma namespace_step:
  "namespace (snd (register_tool_from_script rt (Object info) st)) =
     snd (py_exec rt (script_of info) (namespace st))"
  by (simp add: script_of_def Let_def split: prod.splits option.splits py_raise.splits)

text \<open>The only exception that leaves the call for an object is one of the script that
  does not derive from \<open>Exception\<close>.\<close>

lemma fst_step:
  "fst (register_tool_from_script rt (Object info) st) =
     (if escapes_at rt info st then fst (py_exec rt (script_of info) (namespace st)) else None)"
  by (simp add: escapes_at_def script_of_def Let_def
      split: prod.splits option.splits py_raise.splits)

text \<open>The call changes the tool table only for a valid descriptor, by one assignment.\<close>

lemma tools_step:
  "tools (snd (register_tool_from_script rt (Object info) st)) =
     (if valid_at rt info st
      then AList.update (name_of info) (tool_of rt info st) (tools st)
      else tools st)"
proof -
  obtain r ns where ex: "py_exec rt (script_of info) (namespace st) = (r, ns)"
    by (cases "py_exec rt (script_of info) (namespace st)")
  show ?thesis
  proof (cases r)
    case (Some e)
    with ex show ?thesis
      by (cases e) (simp_all add: valid_at_def script_of_def Let_def)
  next
    case None
    show ?thesis
    proof (cases "namespace_get ns (name_of info)")
      case PyNone
      with ex None show ?thesis
        by (simp add: valid_at_def script_of_def name_of_def Let_def)
    next
      case (PyData d)
      with ex None show ?thesis
        by (simp add: valid_at_def script_of_def name_of_def Let_def tools_register_resolved)
    next
      case (PyCallable label sg)
      with ex None show ?thesis
        by (cases sg)
          (simp_all add: valid_at_def tool_of_def script_of_def name_of_def description_of_def
            Let_def tools_register_resolved split: option.splits)
    qed
  qed
qed

text \<open>From here on a step of the loop is used through the lemmas above.\<close>

declare register_tool_from_script.simps(2) [simp del]


lemma keys_step:
  "set (get_tools st) \<subseteq> set (get_tools (snd (register_tool_from_script rt item st)))"
proof (cases item)
  case NonObject
  then show ?thesis by simp
next
  case (Object info)
  then show ?thesis
    by (auto simp: get_tools_def tools_step dom_update)
qed

lemma keys_step_upper:
  "set (get_tools (snd (register_tool_from_script rt (Object info) st)))
     \<subseteq> insert (name_of info) (set (get_tools st))"
  by (auto simp: get_tools_def tools_step dom_update)

lemma distinct_step:
  assumes "distinct (get_tools st)"
  shows "distinct (get_tools (snd (register_tool_from_script rt item st)))"
proof (cases item)
  case NonObject
  with assms show ?thesis by simp
next
  case (Object info)
  with assms show ?thesis
    by (simp add: get_tools_def tools_step distinct_update)
qed

subsection \<open>The loop\<close>

lemma register_loop_append:
  "register_loop rt (xs @ ys) st =
     (case register_loop rt xs st of
        (None, st1) \<Rightarrow> register_loop rt ys st1
      | (Some e, st1) \<Rightarrow> (Some e, st1))"
  by (induction xs arbitrary: st) (auto split: prod.splits option.splits)

lemma register_loop_prefix:
  assumes "fst (register_loop rt (xs @ ys) st) = None"
  shows "fst (register_loop rt xs st) = None"
  using assms
  by (cases "register_loop rt xs st")
    (auto simp: register_loop_append split: option.splits)

lemma register_loop_singleton:
  "register_loop rt [item] st = register_tool_from_script rt item st"
  by (cases "register_tool_from_script rt item st") (auto split: option.splits)

lemma state_before_Suc:
  assumes "i < length ds" and "fst (register_loop rt (map Object (take i ds)) st) = None"
  shows "register_loop rt (map Object (take (Suc i) ds)) st =
           register_tool_from_script rt (Object (ds ! i)) (state_before rt ds st i)"
proof -
  obtain s where s: "register_loop rt (map Object (take i ds)) st = (None, s)"
    using assms(2) by (cases "register_loop rt (map Object (take i ds)) st") simp
  from assms(1) have "take (Suc i) ds = take i ds @ [ds ! i]"
    by (simp add: take_Suc_conv_app_nth)
  with s show ?thesis
    by (simp add: state_before_def register_loop_append register_loop_singleton
        del: register_loop.simps)
qed



lemma keys_loop:
  "set (get_tools st) \<subseteq> set (get_tools (snd (register_loop rt items st)))"
proof (induction items arbitrary: st)
  case Nil
  then show ?case by simp
next
  case (Cons item items)
  obtain r st1 where step: "register_tool_from_script rt item st = (r, st1)"
    by (cases "register_tool_from_script rt item st")
  with keys_step [of st rt item] have k: "set (get_tools st) \<subseteq> set (get_tools st1)"
    by simp
  show ?case
  proof (cases r)
    case None
    with step k Cons.IH [of st1] show ?thesis by auto
  next
    case (Some e)
    with step k show ?thesis by simp
  qed
qed

lemma keys_loop_upper:
  "set (get_tools (snd (register_loop rt (map Object ds) st)))
     \<subseteq> set (get_tools st) \<union> set (map name_of ds)"
proof (induction ds arbitrary: st)
  case Nil
  then show ?case by simp
next
  case (Cons d ds)
  obtain r st1 where step: "register_tool_from_script rt (Object d) st = (r, st1)"
    by (cases "register_tool_from_script rt (Object d) st")
  with keys_step_upper [of rt d st]
  have k: "set (get_tools st1) \<subseteq> insert (name_of d) (set (get_tools st))"
    by simp
  show ?case
  proof (cases r)
    case None
    with step k Cons.IH [of st1] show ?thesis by auto
  next
    case (Some e)
    with step k show ?thesis by auto
  qed
qed

lemma distinct_loop:
  assumes "distinct (get_tools st)"
  shows "distinct (get_tools (snd (register_loop rt items st)))"
  using assms
proof (induction items arbitrary: st)
  case Nil
  then show ?case by simp
next
  case (Cons item items)
  obtain r st1 where step: "register_tool_from_script rt item st = (r, st1)"
    by (cases "register_tool_from_script rt item st")
  with distinct_step [OF Cons.prems, of rt item] have d: "distinct (get_tools st1)"
    by simp
  show ?case
  proof (cases r)
    case None
    with step Cons.IH [OF d] show ?thesis by simp
  next
    case (Some e)
    with step d show ?thesis by simp
  qed
qed

text \<open>From a batch of objects only an exception outside \<open>Exception\<close> leaves the loop.\<close>

lemma loop_raises_BaseException:
  assumes "fst (register_loop rt (map Object ds) st) \<noteq> None"
  shows "\<exists>msg. fst (register_loop rt (map Object ds) st) = Some (BaseException msg)"
  using assms
proof (induction ds arbitrary: st)
  case Nil
  then show ?case by simp
next
  case (Cons d ds)
  obtain r st1 where step: "register_tool_from_script rt (Object d) st = (r, st1)"
    by (cases "register_tool_from_script rt (Object d) st")
  show ?case
  proof (cases r)
    case None
    with step Cons show ?thesis by simp
  next
    case (Some e)
    from step Some have "\<exists>msg. e = BaseException msg"
      by (auto simp: register_tool_from_script.simps(2) Let_def
          split: prod.splits option.splits py_raise.splits if_splits)
    with step Some show ?thesis by auto
  qed
qed

subsection \<open>registerAll\<close>

lemma tools_register_tools:
  "tools (snd (register_tools rt path (Loaded (Iterable items)) st)) =
     tools (snd (register_loop rt items st))"
  by (simp add: register_tools_def load_and_register_def Let_def
      split: prod.splits option.splits py_raise.splits)

lemma namespace_register_tools:
  "namespace (snd (register_tools rt path (Loaded (Iterable items)) st)) =
     namespace (snd (register_loop rt items st))"
  by (simp add: register_tools_def load_and_register_def Let_def
      split: prod.splits option.splits py_raise.splits)

lemma get_tools_registerAll:
  "get_tools (snd (registerAll rt path ds st)) =
     get_tools (snd (register_loop rt (map Object ds) st))"
  by (simp add: get_tools_def registerAll_def tools_register_tools)

lemma fst_registerAll:
  "fst (registerAll rt path ds st) = fst (register_loop rt (map Object ds) st)"
proof (cases "fst (register_loop rt (map Object ds) st)")
  case None
  then show ?thesis
    by (cases "register_loop rt (map Object ds) st")
      (simp add: registerAll_def register_tools_def load_and_register_def Let_def)
next
  case (Some e)
  then obtain msg where "fst (register_loop rt (map Object ds) st) = Some (BaseException msg)"
    using loop_raises_BaseException [of rt ds st] by auto
  then show ?thesis
    by (cases "register_loop rt (map Object ds) st")
      (simp add: registerAll_def register_tools_def load_and_register_def)
qed

lemma register_tools_completes_loop:
  assumes "fst (register_tools rt path (Loaded (Iterable (map Object ds))) st) = None"
  shows "fst (register_loop rt (map Object ds) st) = None"
  using assms fst_registerAll [of rt path ds st] by (simp add: registerAll_def)

lemmas example_defs =
  example_rt_def exiting_rt_def example_exec_def exiting_exec_def with_builtins_def
  add_tool_def mul_tool_def bad_tool_def exit_tool_def config_tool_def
  add3_tool_def none_tool_def total_tool_def mean_tool_def bare_tool_def

lemmas run_defs =
  registerAll_def register_tools_def load_and_register_def get_tools_def
  state_before_def raises_at_def valid_at_def escapes_at_def tool_of_def
  script_of_def name_of_def description_of_def
  strip_code_fence_def startswith_def endswith_rev replace_def get_default_def
  namespace_get_def register_resolved_def mcp_tool_def
  debug_print_def debug_on_def print_exc_def print_to_def initial_server_def
  register_tool_from_script.simps(2) Let_def

section \<open>The claims\<close>

subsection \<open>C1: a script that raises\<close>






subsection \<open>C2: one namespace for all scripts\<close>

lemma namespace_loop:
  assumes "fst (register_loop rt (map Object ds) st) = None"
  shows "namespace (snd (register_loop rt (map Object ds) st)) =
           foldl (\<lambda>ns info. snd (py_exec rt (script_of info) ns)) (namespace st) ds"
  using assms
proof (induction ds arbitrary: st)
  case Nil
  then show ?case by simp
next
  case (Cons d ds)
  obtain r st1 where step: "register_tool_from_script rt (Object d) st = (r, st1)"
    by (cases "register_tool_from_script rt (Object d) st")
  with Cons.prems have r: "r = None"
    by (cases r) simp_all
  from step namespace_step [of rt d st]
  have "namespace st1 = snd (py_exec rt (script_of d) (namespace st))"
    by simp
  moreover from Cons.prems step r have "fst (register_loop rt (map Object ds) st1) = None"
    by simp
  ultimately show ?case
    using step r Cons.IH [of st1] by simp
qed

text \<open>
  C2: when \<open>registerAll\<close> has processed its batch to the end, the namespace it leaves is
  the namespace it found, passed through the scripts of the batch one after the other,
  whether a descriptor was registered or not. So each script is executed on everything
  the earlier ones left bound, and of two scripts that bind the same name the later one
  decides the binding.
\<close>

theorem namespace_is_shared:
  assumes "fst (registerAll rt path ds st) = None"
  shows "namespace (snd (registerAll rt path ds st)) =
           foldl (\<lambda>ns info. snd (py_exec rt (script_of info) ns)) (namespace st) ds"
proof -
  from assms have "fst (register_loop rt (map Object ds) st) = None"
    unfolding registerAll_def by (rule register_tools_completes_loop)
  then show ?thesis
    by (simp add: registerAll_def namespace_register_tools namespace_loop)
qed

theorem namespace_is_shared_witness:
  "fst (registerAll example_rt ''registry.json'' [add_tool, mul_tool, add3_tool] initial_server)
     = None \<and>
   namespace (snd (registerAll example_rt ''registry.json'' [add_tool, mul_tool, add3_tool]
      initial_server)) ''add''
     = Some (PyCallable ''add/2'' (Some [(''a'', True), (''b'', True), (''c'', False)])) \<and>
   namespace (snd (registerAll example_rt ''registry.json'' [add_tool, mul_tool, add3_tool]
      initial_server)) ''mul''
     = Some (PyCallable ''mul'' (Some [(''a'', True), (''b'', True)]))"
proof -
  have h: "fst (registerAll example_rt ''registry.json'' [add_tool, mul_tool, add3_tool]
      initial_server) = None"
    by (simp add: example_defs run_defs)
  from namespace_is_shared [OF h] h show ?thesis
    by (simp add: example_defs script_of_def strip_code_fence_def startswith_def endswith_rev
        get_default_def initial_server_def)
qed

subsection \<open>C8: the order of the batch\<close>

lemma valid_at_namespace:
  assumes "namespace s = namespace s'"
  shows "valid_at rt info s = valid_at rt info s'"
  using assms by (simp add: valid_at_def)

lemma tool_of_namespace:
  assumes "namespace s = namespace s'"
  shows "tool_of rt info s = tool_of rt info s'"
  using assms by (simp add: tool_of_def)

lemma namespace_registerAll:
  "namespace (snd (registerAll rt path ds st)) =
     namespace (snd (register_loop rt (map Object ds) st))"
  by (simp add: registerAll_def namespace_register_tools)

lemma tools_registerAll:
  "tools (snd (registerAll rt path ds st)) = tools (snd (register_loop rt (map Object ds) st))"
  by (simp add: registerAll_def tools_register_tools)

text \<open>
  C8: \<open>registerAll\<close> processes the batch in the order of the list, one descriptor at a
  time. Where the first \<open>i\<close> descriptors have been processed, the namespace and the tool
  table \<open>registerAll\<close> leaves for the first \<open>i + 1\<close> descriptors are those it leaves for
  the first \<open>i\<close>, after the script of descriptor \<open>i\<close> has been executed on that namespace
  and, if the descriptor is valid there, its entry has been assigned. An empty batch
  changes neither. (With \<open>i + 1\<close> the length of the batch, this is the whole batch.)
\<close>

theorem descriptors_processed_in_order:
  assumes "i < length ds" and "fst (registerAll rt path (take i ds) st) = None"
  shows "namespace (snd (registerAll rt path (take (Suc i) ds) st)) =
           snd (py_exec rt (script_of (ds ! i))
                  (namespace (snd (registerAll rt path (take i ds) st)))) \<and>
         tools (snd (registerAll rt path (take (Suc i) ds) st)) =
           (if valid_at rt (ds ! i) (snd (registerAll rt path (take i ds) st))
            then AList.update (name_of (ds ! i))
                   (tool_of rt (ds ! i) (snd (registerAll rt path (take i ds) st)))
                   (tools (snd (registerAll rt path (take i ds) st)))
            else tools (snd (registerAll rt path (take i ds) st))) \<and>
         namespace (snd (registerAll rt path [] st)) = namespace st \<and>
         tools (snd (registerAll rt path [] st)) = tools st"
proof -
  let ?s = "state_before rt ds st i"
  let ?r = "snd (registerAll rt path (take i ds) st)"
  from assms(2) have reached: "fst (register_loop rt (map Object (take i ds)) st) = None"
    by (simp add: fst_registerAll)
  have ns: "namespace ?r = namespace ?s"
    by (simp add: namespace_registerAll state_before_def)
  have ts: "tools ?r = tools ?s"
    by (simp add: tools_registerAll state_before_def)
  note step = state_before_Suc [OF assms(1) reached]
  have "namespace (snd (registerAll rt path (take (Suc i) ds) st)) =
          snd (py_exec rt (script_of (ds ! i)) (namespace ?s))"
    by (simp add: namespace_registerAll step namespace_step)
  moreover have "tools (snd (registerAll rt path (take (Suc i) ds) st)) =
      (if valid_at rt (ds ! i) ?s
       then AList.update (name_of (ds ! i)) (tool_of rt (ds ! i) ?s) (tools ?s)
       else tools ?s)"
    by (simp add: tools_registerAll step tools_step)
  moreover have "namespace (snd (registerAll rt path [] st)) = namespace st"
    by (simp add: namespace_registerAll)
  moreover have "tools (snd (registerAll rt path [] st)) = tools st"
    by (simp add: tools_registerAll)
  ultimately show ?thesis
    by (simp add: ns ts valid_at_namespace [OF ns] tool_of_namespace [OF ns])
qed

theorem descriptors_processed_in_order_witness:
  "Suc 0 < length [add_tool, add3_tool] \<and>
   fst (registerAll example_rt ''registry.json'' [add_tool] initial_server) = None \<and>
   namespace (snd (registerAll example_rt ''registry.json'' [add_tool, add3_tool] initial_server))
     ''add''
     = Some (PyCallable ''add/2'' (Some [(''a'', True), (''b'', True), (''c'', False)])) \<and>
   map (\<lambda>(name, t). (name, tool_fn t))
     (tools (snd (registerAll example_rt ''registry.json'' [add_tool, add3_tool] initial_server)))
     = [(''add'', PyCallable ''add/2'' (Some [(''a'', True), (''b'', True), (''c'', False)]))] \<and>
   map (\<lambda>(name, t). (name, tool_fn t))
     (tools (snd (registerAll example_rt ''registry.json'' [add3_tool, add_tool] initial_server)))
     = [(''add'', PyCallable ''add/1'' (Some [(''a'', True), (''b'', True)]))]"
proof -
  let ?ds = "[add_tool, add3_tool]"
  have i: "Suc 0 < length ?ds"
    by simp
  have r: "fst (registerAll example_rt ''registry.json'' (take (Suc 0) ?ds) initial_server) = None"
    by (simp add: example_defs run_defs)
  note t = descriptors_processed_in_order [OF i r]
  have one: "snd (registerAll example_rt ''registry.json'' (take (Suc 0) ?ds) initial_server) =
      snd (registerAll example_rt ''registry.json'' [add_tool] initial_server)"
    by simp
  have whole: "take (Suc (Suc 0)) ?ds = ?ds"
    by simp
  have v: "valid_at example_rt add3_tool
      (snd (registerAll example_rt ''registry.json'' [add_tool] initial_server))"
    by (simp add: example_defs run_defs)
  have "namespace (snd (registerAll example_rt ''registry.json'' ?ds initial_server)) ''add''
     = Some (PyCallable ''add/2'' (Some [(''a'', True), (''b'', True), (''c'', False)]))"
    using t [THEN conjunct1] unfolding whole one
    by (simp add: example_defs run_defs)
  moreover have "tools (snd (registerAll example_rt ''registry.json'' ?ds initial_server)) =
      AList.update (name_of add3_tool)
        (tool_of example_rt add3_tool
           (snd (registerAll example_rt ''registry.json'' [add_tool] initial_server)))
        (tools (snd (registerAll example_rt ''registry.json'' [add_tool] initial_server)))"
    using t [THEN conjunct2, THEN conjunct1] v unfolding whole one by simp
  then have "map (\<lambda>(name, t). (name, tool_fn t))
     (tools (snd (registerAll example_rt ''registry.json'' ?ds initial_server)))
     = [(''add'', PyCallable ''add/2'' (Some [(''a'', True), (''b'', True), (''c'', False)]))]"
    by (simp add: example_defs run_defs)
  moreover have "map (\<lambda>(name, t). (name, tool_fn t))
     (tools (snd (registerAll example_rt ''registry.json'' [add3_tool, add_tool] initial_server)))
     = [(''add'', PyCallable ''add/1'' (Some [(''a'', True), (''b'', True)]))]"
    by (simp add: example_defs run_defs)
  moreover have "fst (registerAll example_rt ''registry.json'' [add_tool] initial_server) = None"
    using r by simp
  ultimately show ?thesis
    using i by simp
qed

subsection \<open>C3 and C9: a name that does not resolve\<close>

text \<open>
  C3, as stated, fails in its last part: a skipped descriptor does not take an entry out
  of the table. In the batch of \<open>add_tool\<close> and \<open>none_tool\<close> the script of \<open>none_tool\<close>
  runs to the end and leaves \<open>add\<close> bound to \<open>None\<close>, which is not callable; the
  descriptor is skipped, and the table still has the entry \<open>add\<close> that \<open>add_tool\<close> made.
\<close>

theorem skipped_name_still_registered:
  "fst (py_exec example_rt (script_of none_tool)
     (namespace (state_before example_rt [add_tool, none_tool] initial_server (Suc 0)))) = None \<and>
   \<not> callable (namespace_get
     (snd (py_exec example_rt (script_of none_tool)
        (namespace (state_before example_rt [add_tool, none_tool] initial_server (Suc 0)))))
     (name_of none_tool)) \<and>
   name_of none_tool \<in> set (get_tools
     (snd (registerAll example_rt ''registry.json'' [add_tool, none_tool] initial_server)))"
  by (simp add: example_defs run_defs)

text \<open>
  C3, amended: when the script has run to the end and the declared name is then absent
  from the namespace, or bound to an object that is not callable, the descriptor is
  skipped and only it: no exception leaves the call (the code has no
  \<open>SymbolNotFoundError\<close>; it reports on the debug channel and returns), the loop goes on
  with the next descriptor, and the tool table is exactly what it was before. So the
  descriptor makes no entry: the table has an entry for the name afterwards only if it
  had one before.
\<close>

theorem unresolved_name_is_skipped:
  assumes "py_exec rt (script_of info) (namespace st) = (None, ns)"
    and "ns (name_of info) = None \<or> (\<exists>obj. ns (name_of info) = Some obj \<and> \<not> callable obj)"
  shows "fst (register_tool_from_script rt (Object info) st) = None \<and>
         tools (snd (register_tool_from_script rt (Object info) st)) = tools st \<and>
         (name_of info \<in> set (get_tools (snd (register_tool_from_script rt (Object info) st)))
            \<longleftrightarrow> name_of info \<in> set (get_tools st)) \<and>
         register_loop rt (Object info # rest) st =
           register_loop rt rest (snd (register_tool_from_script rt (Object info) st))"
proof -
  from assms(2) have "\<not> callable (namespace_get ns (name_of info))"
    by (auto simp: namespace_get_def)
  with assms(1) have invalid: "\<not> valid_at rt info st"
    by (cases "namespace_get ns (name_of info)") (simp_all add: valid_at_def)
  from assms(1) have "\<not> escapes_at rt info st"
    by (simp add: escapes_at_def)
  then have ret: "fst (register_tool_from_script rt (Object info) st) = None"
    by (simp add: fst_step)
  from invalid have same: "tools (snd (register_tool_from_script rt (Object info) st)) = tools st"
    by (simp add: tools_step)
  from ret have "register_loop rt (Object info # rest) st =
      register_loop rt rest (snd (register_tool_from_script rt (Object info) st))"
    by (cases "register_tool_from_script rt (Object info) st") simp
  with ret same show ?thesis
    by (simp add: get_tools_def)
qed

theorem unresolved_name_is_skipped_witness:
  "py_exec example_rt (script_of config_tool) (namespace initial_server) =
     (None, [''__builtins__'' \<mapsto> PyData ''<module builtins>'', ''config'' \<mapsto> PyData ''5'']) \<and>
   \<not> callable (PyData ''5'') \<and>
   fst (register_tool_from_script example_rt (Object config_tool) initial_server) = None \<and>
   tools (snd (register_tool_from_script example_rt (Object config_tool) initial_server)) = [] \<and>
   get_tools (snd (register_loop example_rt [Object config_tool, Object mul_tool] initial_server))
     = [''mul'']"
proof -
  have e: "py_exec example_rt (script_of config_tool) (namespace initial_server) =
     (None, [''__builtins__'' \<mapsto> PyData ''<module builtins>'', ''config'' \<mapsto> PyData ''5''])"
    by (simp add: example_defs run_defs)
  have n: "[''__builtins__'' \<mapsto> PyData ''<module builtins>'', ''config'' \<mapsto> PyData ''5'']
             (name_of config_tool) = None \<or>
           (\<exists>obj. [''__builtins__'' \<mapsto> PyData ''<module builtins>'', ''config'' \<mapsto> PyData ''5'']
             (name_of config_tool) = Some obj \<and> \<not> callable obj)"
    by (simp add: example_defs run_defs)
  have rest: "get_tools (snd (register_loop example_rt [Object mul_tool]
      (snd (register_tool_from_script example_rt (Object config_tool) initial_server)))) = [''mul'']"
    by (simp add: example_defs run_defs)
  note t = unresolved_name_is_skipped [OF e n, of "[Object mul_tool]"]
  have "fst (register_tool_from_script example_rt (Object config_tool) initial_server) = None"
    using t [THEN conjunct1] .
  moreover have
    "tools (snd (register_tool_from_script example_rt (Object config_tool) initial_server)) = []"
    using t [THEN conjunct2, THEN conjunct1] by (simp add: initial_server_def)
  moreover have "get_tools (snd (register_loop example_rt [Object config_tool, Object mul_tool]
      initial_server)) = [''mul'']"
    using t [THEN conjunct2, THEN conjunct2, THEN conjunct2] rest by simp
  ultimately show ?thesis
    using e by simp
qed

text \<open>
  C9: a script that runs to the end and leaves the declared name bound to \<open>None\<close> has
  the outcome of one that leaves the name unbound: in both cases the call returns the
  same state (the "not found" line on the debug channel, the namespace of the script,
  the tool table untouched).
\<close>

theorem name_bound_to_None_is_skipped:
  assumes "py_exec rt (script_of info) (namespace st) = (None, ns)"
    and "ns (name_of info) = Some PyNone \<or> ns (name_of info) = None"
  shows "register_tool_from_script rt (Object info) st =
           (None,
            debug_print rt
              (''Tool function '' @ [CHR 0x27] @ name_of info @ [CHR 0x27] @
               '' not found in script content.'')
              ((debug_print rt (''Registering tool: '' @ name_of info) st)\<lparr>namespace := ns\<rparr>)) \<and>
         tools (snd (register_tool_from_script rt (Object info) st)) = tools st"
proof -
  from assms(2) have "namespace_get ns (name_of info) = PyNone"
    by (auto simp: namespace_get_def)
  with assms(1) show ?thesis
    by (simp add: register_tool_from_script.simps(2) script_of_def name_of_def Let_def)
qed

theorem name_bound_to_None_is_skipped_witness:
  "py_exec example_rt (script_of none_tool) (namespace initial_server) =
     (None, [''__builtins__'' \<mapsto> PyData ''<module builtins>'', ''add'' \<mapsto> PyNone]) \<and>
   fst (register_tool_from_script example_rt (Object none_tool) initial_server) = None \<and>
   tools (snd (register_tool_from_script example_rt (Object none_tool) initial_server)) = [] \<and>
   printed (snd (register_tool_from_script example_rt (Object none_tool) initial_server)) = []"
proof -
  have e: "py_exec example_rt (script_of none_tool) (namespace initial_server) =
     (None, [''__builtins__'' \<mapsto> PyData ''<module builtins>'', ''add'' \<mapsto> PyNone])"
    by (simp add: example_defs run_defs)
  have n: "[''__builtins__'' \<mapsto> PyData ''<module builtins>'', ''add'' \<mapsto> PyNone]
             (name_of none_tool) = Some PyNone \<or>
           [''__builtins__'' \<mapsto> PyData ''<module builtins>'', ''add'' \<mapsto> PyNone]
             (name_of none_tool) = None"
    by (simp add: example_defs run_defs)
  from name_bound_to_None_is_skipped [OF e n]
  have "fst (register_tool_from_script example_rt (Object none_tool) initial_server) = None \<and>
    tools (snd (register_tool_from_script example_rt (Object none_tool) initial_server)) = [] \<and>
    printed (snd (register_tool_from_script example_rt (Object none_tool) initial_server)) = []"
    by (simp add: example_rt_def debug_print_def debug_on_def initial_server_def)
  with e show ?thesis
    by simp
qed

subsection \<open>C6: a registry file that cannot be read\<close>

lemma register_loop_non_objects:
  assumes "list_all (\<lambda>item. item = NonObject) items"
  shows "register_loop rt items st =
           (if items = [] then (None, st)
            else (Some (Exception ''object has no attribute get''), st))"
  using assms by (cases items) simp_all

text \<open>
  C6: when the registry file is missing, is not JSON, or holds a top-level value that is
  no array of descriptors, \<open>register_tools\<close> returns without an exception and leaves the
  tool table as it was; the main program, which starts from the empty table, then goes on
  to serve with no tools.
\<close>

theorem unreadable_registry_serves_empty:
  assumes "unreadable_registry loaded"
  shows "fst (register_tools rt path loaded st) = None \<and>
         tools (snd (register_tools rt path loaded st)) = tools st \<and>
         main rt path loaded = Serving (snd (register_tools rt path loaded initial_server)) \<and>
         get_tools (snd (register_tools rt path loaded initial_server)) = []"
proof -
  have ret: "fst (register_tools rt path loaded s) = None \<and>
             tools (snd (register_tools rt path loaded s)) = tools s" for s
  proof (cases loaded)
    case (Loaded v)
    show ?thesis
    proof (cases v)
      case (Iterable items)
      with Loaded assms have "list_all (\<lambda>item. item = NonObject) items"
        by simp
      with Loaded Iterable show ?thesis
        by (simp add: register_tools_def load_and_register_def Let_def
            register_loop_non_objects)
    next
      case NotIterable
      with Loaded show ?thesis
        by (simp add: register_tools_def load_and_register_def Let_def)
    qed
  qed (simp_all add: register_tools_def load_and_register_def Let_def)
  from ret [of initial_server]
  have "main rt path loaded = Serving (snd (register_tools rt path loaded initial_server))"
    by (cases "register_tools rt path loaded initial_server") (simp add: main_def)
  moreover from ret [of initial_server]
  have "get_tools (snd (register_tools rt path loaded initial_server)) = []"
    by (simp add: get_tools_def initial_server_def)
  ultimately show ?thesis
    using ret [of st] by simp
qed

theorem unreadable_registry_serves_empty_witness:
  "unreadable_registry FileNotFoundError \<and>
   unreadable_registry (Loaded (Iterable [NonObject, NonObject])) \<and>
   main example_rt ''registry.json'' FileNotFoundError = Serving initial_server \<and>
   main example_rt ''registry.json'' (Loaded (Iterable [NonObject, NonObject]))
     = Serving initial_server"
  using unreadable_registry_serves_empty [of FileNotFoundError example_rt "''registry.json''"
      initial_server]
    unreadable_registry_serves_empty [of "Loaded (Iterable [NonObject, NonObject])" example_rt
      "''registry.json''" initial_server]
  by (simp add: example_defs run_defs)

subsection \<open>C10: missing fields\<close>

text \<open>
  C10, as stated, fails in its last part: a descriptor without a source body is not
  always skipped. \<open>bare_tool\<close> has only the name \<open>add\<close>; processed after \<open>add_tool\<close>, whose
  script left \<open>add\<close> bound in the shared namespace, it is registered and replaces the
  entry of \<open>add_tool\<close> with one that carries the default description.
\<close>

theorem bare_descriptor_is_registered:
  "si_script_content bare_tool = None \<and>
   map (\<lambda>(name, t). (name, tool_description t))
     (tools (state_before example_rt [add_tool, bare_tool] initial_server (Suc 0)))
     = [(''add'', ''Add two numbers'')] \<and>
   map (\<lambda>(name, t). (name, tool_description t))
     (tools (state_before example_rt [add_tool, bare_tool] initial_server (Suc (Suc 0))))
     = [(''add'', ''No description provided.'')]"
  by (simp add: example_defs run_defs)

text \<open>
  C10, amended: a descriptor with missing fields is processed exactly as the descriptor
  that has \<open>UnnamedTool\<close>, \<open>No description provided.\<close> and the empty source in their
  place, so a missing field raises nothing of its own. Where the empty source runs to
  the end, a descriptor without a source body raises nothing and
  \<^item> is skipped at resolution, the tool table left as it was, if its name is then unbound
    (or bound to \<open>None\<close>) in the shared namespace;
  \<^item> is registered, its entry (the name and the description with their defaults, the
    object found under the name) assigned in the tool table, if it is valid: the name is
    bound to a callable whose signature is found and which FastMCP accepts;
  \<^item> leaves the tool table as it was in every other case.
\<close>

theorem missing_fields_take_defaults:
  "register_tool_from_script rt (Object info) st =
     register_tool_from_script rt
       (Object \<lparr>si_name = Some (get_default (si_name info) ''UnnamedTool''),
                si_description =
                  Some (get_default (si_description info) ''No description provided.''),
                si_script_content = Some (get_default (si_script_content info) '''')\<rparr>) st \<and>
   tool_name (tool_of rt info st) = get_default (si_name info) ''UnnamedTool'' \<and>
   tool_description (tool_of rt info st) =
     get_default (si_description info) ''No description provided.'' \<and>
   (si_script_content info = None \<and> py_exec rt '''' (namespace st) = (None, ns) \<longrightarrow>
      fst (register_tool_from_script rt (Object info) st) = None \<and>
      tool_fn (tool_of rt info st) = namespace_get ns (name_of info) \<and>
      (namespace_get ns (name_of info) = PyNone \<longrightarrow>
         tools (snd (register_tool_from_script rt (Object info) st)) = tools st) \<and>
      (valid_at rt info st \<longrightarrow>
         tools (snd (register_tool_from_script rt (Object info) st)) =
           AList.update (name_of info) (tool_of rt info st) (tools st)) \<and>
      (\<not> valid_at rt info st \<longrightarrow>
         tools (snd (register_tool_from_script rt (Object info) st)) = tools st))"
proof -
  have empty: "strip_code_fence '''' = ''''"
    by (simp add: strip_code_fence_def startswith_def endswith_rev)
  have filled: "register_tool_from_script rt (Object info) st =
     register_tool_from_script rt
       (Object \<lparr>si_name = Some (get_default (si_name info) ''UnnamedTool''),
                si_description =
                  Some (get_default (si_description info) ''No description provided.''),
                si_script_content = Some (get_default (si_script_content info) '''')\<rparr>) st"
    by (simp add: register_tool_from_script.simps(2) get_default_def)
  have fields: "tool_name (tool_of rt info st) = get_default (si_name info) ''UnnamedTool'' \<and>
      tool_description (tool_of rt info st) =
        get_default (si_description info) ''No description provided.''"
    by (simp add: tool_of_def Let_def name_of_def description_of_def)
  have rest: "fst (register_tool_from_script rt (Object info) st) = None \<and>
      tool_fn (tool_of rt info st) = namespace_get ns (name_of info) \<and>
      (namespace_get ns (name_of info) = PyNone \<longrightarrow>
         tools (snd (register_tool_from_script rt (Object info) st)) = tools st) \<and>
      (valid_at rt info st \<longrightarrow>
         tools (snd (register_tool_from_script rt (Object info) st)) =
           AList.update (name_of info) (tool_of rt info st) (tools st)) \<and>
      (\<not> valid_at rt info st \<longrightarrow>
         tools (snd (register_tool_from_script rt (Object info) st)) = tools st)"
    if missing: "si_script_content info = None"
      and ex: "py_exec rt '''' (namespace st) = (None, ns)"
  proof -
    from missing empty have src: "script_of info = ''''"
      by (simp add: script_of_def get_default_def)
    with ex have "\<not> escapes_at rt info st"
      by (simp add: escapes_at_def)
    then have "fst (register_tool_from_script rt (Object info) st) = None"
      by (simp add: fst_step)
    moreover from src ex have "tool_fn (tool_of rt info st) = namespace_get ns (name_of info)"
      by (simp add: tool_of_def Let_def)
    moreover from src ex have "namespace_get ns (name_of info) = PyNone \<longrightarrow> \<not> valid_at rt info st"
      by (simp add: valid_at_def)
    ultimately show ?thesis
      by (simp add: tools_step)
  qed
  from filled fields rest show ?thesis
    by blast
qed

theorem missing_fields_take_defaults_witness:
  "py_exec example_rt '''' (namespace initial_server) =
     (None, [''__builtins__'' \<mapsto> PyData ''<module builtins>'']) \<and>
   register_tool_from_script example_rt
     (Object \<lparr>si_name = None, si_description = None, si_script_content = None\<rparr>) initial_server =
   register_tool_from_script example_rt
     (Object \<lparr>si_name = Some ''UnnamedTool'', si_description = Some ''No description provided.'',
              si_script_content = Some ''''\<rparr>) initial_server \<and>
   fst (register_tool_from_script example_rt
     (Object \<lparr>si_name = None, si_description = None, si_script_content = None\<rparr>) initial_server)
     = None \<and>
   tools (snd (register_tool_from_script example_rt
     (Object \<lparr>si_name = None, si_description = None, si_script_content = None\<rparr>) initial_server))
     = [] \<and>
   valid_at example_rt bare_tool
     (snd (register_tool_from_script example_rt (Object add_tool) initial_server)) \<and>
   map (\<lambda>(name, t). (name, tool_description t, tool_fn t))
     (tools (snd (register_tool_from_script example_rt (Object bare_tool)
        (snd (register_tool_from_script example_rt (Object add_tool) initial_server)))))
     = [(''add'', ''No description provided.'',
         PyCallable ''add/1'' (Some [(''a'', True), (''b'', True)]))]"
proof -
  let ?info = "\<lparr>si_name = None, si_description = None, si_script_content = None\<rparr>"
  let ?ns = "[''__builtins__'' \<mapsto> PyData ''<module builtins>'']"
  let ?s1 = "snd (register_tool_from_script example_rt (Object add_tool) initial_server)"
  let ?ns1 = "[''__builtins__'' \<mapsto> PyData ''<module builtins>'',
               ''add'' \<mapsto> PyCallable ''add/1'' (Some [(''a'', True), (''b'', True)])]"
  have e: "py_exec example_rt '''' (namespace initial_server) = (None, ?ns)"
    by (simp add: example_defs run_defs)
  then have c: "si_script_content ?info = None \<and>
      py_exec example_rt '''' (namespace initial_server) = (None, ?ns)"
    by simp
  have u: "namespace_get ?ns (name_of ?info) = PyNone"
    by (simp add: run_defs)
  note t = missing_fields_take_defaults [of example_rt ?info initial_server ?ns]
  have a: "register_tool_from_script example_rt (Object ?info) initial_server =
      register_tool_from_script example_rt
        (Object \<lparr>si_name = Some ''UnnamedTool'', si_description = Some ''No description provided.'',
                 si_script_content = Some ''''\<rparr>) initial_server"
    using t [THEN conjunct1] by (simp add: get_default_def)
  note t2 = t [THEN conjunct2, THEN conjunct2, THEN conjunct2, THEN mp, OF c]
  have b: "fst (register_tool_from_script example_rt (Object ?info) initial_server) = None"
    using t2 [THEN conjunct1] .
  have d: "tools (snd (register_tool_from_script example_rt (Object ?info) initial_server)) = []"
    using t2 [THEN conjunct2, THEN conjunct2, THEN conjunct1] u
    by (simp add: initial_server_def)
  have e1: "py_exec example_rt '''' (namespace ?s1) = (None, ?ns1)"
    by (simp add: example_defs run_defs)
  then have c1: "si_script_content bare_tool = None \<and>
      py_exec example_rt '''' (namespace ?s1) = (None, ?ns1)"
    by (simp add: bare_tool_def)
  have v: "valid_at example_rt bare_tool ?s1"
    by (simp add: example_defs run_defs)
  note r = missing_fields_take_defaults [of example_rt bare_tool ?s1 ?ns1,
    THEN conjunct2, THEN conjunct2, THEN conjunct2, THEN mp, OF c1]
  have "tools (snd (register_tool_from_script example_rt (Object bare_tool) ?s1)) =
      AList.update (name_of bare_tool) (tool_of example_rt bare_tool ?s1) (tools ?s1)"
    using r [THEN conjunct2, THEN conjunct2, THEN conjunct2, THEN conjunct1] v by simp
  then have f: "map (\<lambda>(name, t). (name, tool_description t, tool_fn t))
     (tools (snd (register_tool_from_script example_rt (Object bare_tool) ?s1)))
     = [(''add'', ''No description provided.'',
         PyCallable ''add/1'' (Some [(''a'', True), (''b'', True)]))]"
    by (simp add: example_defs run_defs)
  from e a b d v f show ?thesis
    by (intro conjI)
qed

subsection \<open>C7: registering the same batch twice\<close>

text \<open>
  C7, as stated, fails: the second call finds the namespace the first call left. In the
  batch of \<open>total_tool\<close> and \<open>mean_tool\<close> the script of \<open>total_tool\<close> binds \<open>totl\<close>, not
  \<open>total\<close>, and the script of \<open>mean_tool\<close> binds both \<open>total\<close> and \<open>mean\<close>. The first
  call skips \<open>total_tool\<close> and registers \<open>mean\<close>; the second call finds \<open>total\<close> bound
  and registers it too.
\<close>

theorem second_registerAll_adds_entry:
  "get_tools (snd (registerAll example_rt ''registry.json'' [total_tool, mean_tool] initial_server))
     = [''mean''] \<and>
   get_tools (snd (registerAll example_rt ''registry.json'' [total_tool, mean_tool]
     (snd (registerAll example_rt ''registry.json'' [total_tool, mean_tool] initial_server))))
     = [''mean'', ''total'']"
  by (simp add: example_defs run_defs)

text \<open>
  C7, amended: after a second call with the same batch the tool table still has one entry
  per name; every name the first call had registered is still registered; a name the
  second call adds is a declared name of the batch (one the first call had skipped). So
  when the first call has registered every declared name of the batch, the second call
  leaves the same set of names.
\<close>

theorem registerAll_twice_keeps_entries:
  assumes "distinct (get_tools st)"
  shows "distinct (get_tools (snd (registerAll rt path ds (snd (registerAll rt path ds st))))) \<and>
         set (get_tools (snd (registerAll rt path ds st)))
           \<subseteq> set (get_tools (snd (registerAll rt path ds (snd (registerAll rt path ds st))))) \<and>
         set (get_tools (snd (registerAll rt path ds (snd (registerAll rt path ds st)))))
           \<subseteq> set (get_tools (snd (registerAll rt path ds st))) \<union> set (map name_of ds) \<and>
         (set (map name_of ds) \<subseteq> set (get_tools (snd (registerAll rt path ds st))) \<longrightarrow>
            set (get_tools (snd (registerAll rt path ds (snd (registerAll rt path ds st)))))
              = set (get_tools (snd (registerAll rt path ds st))))"
proof -
  let ?once = "snd (registerAll rt path ds st)"
  let ?twice = "snd (registerAll rt path ds ?once)"
  have "distinct (get_tools ?once)"
    using assms by (simp add: get_tools_registerAll distinct_loop)
  then have d: "distinct (get_tools ?twice)"
    by (simp add: get_tools_registerAll distinct_loop)
  have lower: "set (get_tools ?once) \<subseteq> set (get_tools ?twice)"
    unfolding get_tools_registerAll [of rt path ds ?once] by (rule keys_loop)
  have upper: "set (get_tools ?twice) \<subseteq> set (get_tools ?once) \<union> set (map name_of ds)"
    unfolding get_tools_registerAll [of rt path ds ?once] by (rule keys_loop_upper)
  from lower upper have "set (map name_of ds) \<subseteq> set (get_tools ?once) \<longrightarrow>
      set (get_tools ?twice) = set (get_tools ?once)"
    by blast
  with d lower upper show ?thesis
    by blast
qed

theorem registerAll_twice_keeps_entries_witness:
  "distinct (get_tools initial_server) \<and>
   set (map name_of [add_tool, mul_tool])
     \<subseteq> set (get_tools (snd (registerAll example_rt ''registry.json'' [add_tool, mul_tool]
       initial_server))) \<and>
   distinct (get_tools (snd (registerAll example_rt ''registry.json'' [add_tool, mul_tool]
     (snd (registerAll example_rt ''registry.json'' [add_tool, mul_tool] initial_server))))) \<and>
   set (get_tools (snd (registerAll example_rt ''registry.json'' [add_tool, mul_tool]
     (snd (registerAll example_rt ''registry.json'' [add_tool, mul_tool] initial_server)))))
     = set (get_tools (snd (registerAll example_rt ''registry.json'' [add_tool, mul_tool]
         initial_server))) \<and>
   set (get_tools (snd (registerAll example_rt ''registry.json'' [total_tool, mean_tool]
     (snd (registerAll example_rt ''registry.json'' [total_tool, mean_tool] initial_server)))))
     \<subseteq> set (get_tools (snd (registerAll example_rt ''registry.json'' [total_tool, mean_tool]
         initial_server))) \<union> set (map name_of [total_tool, mean_tool])"
proof -
  have d: "distinct (get_tools initial_server)"
    by (simp add: get_tools_def initial_server_def)
  have a: "set (map name_of [add_tool, mul_tool])
     \<subseteq> set (get_tools (snd (registerAll example_rt ''registry.json'' [add_tool, mul_tool]
       initial_server)))"
    by (simp add: example_defs run_defs)
  note t = registerAll_twice_keeps_entries
    [OF d, of example_rt "''registry.json''" "[add_tool, mul_tool]"]
  note u = registerAll_twice_keeps_entries
    [OF d, of example_rt "''registry.json''" "[total_tool, mean_tool]"]
  from t [THEN conjunct1]
    t [THEN conjunct2, THEN conjunct2, THEN conjunct2, THEN mp, OF a]
    u [THEN conjunct2, THEN conjunct2, THEN conjunct1] d a
  show ?thesis
    by (intro conjI)
qed

subsection \<open>C5: what is printed\<close>

lemma written_to_print_to:
  "written_to ch (print_to ch' line st) =
     (if ch = ch' then written_to ch st @ [line] else written_to ch st)"
  by (simp add: written_to_def print_to_def)

lemma stdout_debug_print [simp]: "written_to Stdout (debug_print rt line st) = written_to Stdout st"
  by (simp add: debug_print_def written_to_print_to)

lemma stdout_print_exc [simp]: "written_to Stdout (print_exc msg st) = written_to Stdout st"
  by (simp add: print_exc_def written_to_print_to)

lemma stdout_namespace_update [simp]:
  "written_to Stdout (st\<lparr>namespace := ns\<rparr>) = written_to Stdout st"
  by (simp add: written_to_def)

lemma stdout_tools_update [simp]:
  "written_to Stdout (st\<lparr>tools := table\<rparr>) = written_to Stdout st"
  by (simp add: written_to_def)

lemma stdout_register_resolved [simp]:
  "written_to Stdout (register_resolved rt name description fn st) = written_to Stdout st"
  by (simp add: register_resolved_def Let_def split: sum.splits)

lemma stdout_step:
  "written_to Stdout (snd (register_tool_from_script rt item st)) = written_to Stdout st"
proof (cases item)
  case NonObject
  then show ?thesis by simp
next
  case (Object info)
  then show ?thesis
    by (simp add: register_tool_from_script.simps(2) Let_def written_to_print_to
        split: prod.splits option.splits py_raise.splits)
qed

lemma stdout_loop:
  "written_to Stdout (snd (register_loop rt items st)) = written_to Stdout st"
proof (induction items arbitrary: st)
  case Nil
  then show ?case by simp
next
  case (Cons item items)
  obtain r st1 where step: "register_tool_from_script rt item st = (r, st1)"
    by (cases "register_tool_from_script rt item st")
  with stdout_step [of rt item st] have "written_to Stdout st1 = written_to Stdout st"
    by simp
  with step Cons.IH [of st1] show ?case
    by (cases r) simp_all
qed

text \<open>The part of C5 that holds: nothing the server prints goes to standard output, the
  channel of the protocol, whatever \<open>DEBUG\<close> says.\<close>

lemma nothing_printed_to_stdout:
  "written_to Stdout (snd (register_tools rt path loaded st)) = written_to Stdout st"
proof -
  have "written_to Stdout (snd (load_and_register rt path loaded st)) = written_to Stdout st"
  proof (cases loaded)
    case (Loaded v)
    show ?thesis
    proof (cases v)
      case (Iterable items)
      with Loaded stdout_loop [of rt items st] show ?thesis
        by (auto simp: load_and_register_def split: prod.splits option.splits py_raise.splits)
    next
      case NotIterable
      with Loaded show ?thesis by (simp add: load_and_register_def)
    qed
  qed (simp_all add: load_and_register_def)
  then show ?thesis
    by (auto simp: register_tools_def Let_def split: prod.splits option.splits)
qed

text \<open>With \<open>DEBUG\<close> unset, a script that raises is passed over in silence (lines 48 to
  53: the traceback is under the test of \<open>DEBUG\<close>).\<close>

lemma silent_when_script_raises:
  assumes "\<not> debug_on rt" and "raises_at rt info st"
  shows "printed (snd (register_tool_from_script rt (Object info) st)) = printed st"
proof -
  obtain r ns where ex: "py_exec rt (script_of info) (namespace st) = (r, ns)"
    by (cases "py_exec rt (script_of info) (namespace st)")
  with assms(2) have "r \<noteq> None"
    by (simp add: raises_at_def)
  with ex assms(1) show ?thesis
    by (auto simp: register_tool_from_script.simps(2) script_of_def Let_def debug_print_def
        split: option.splits py_raise.splits)
qed

text \<open>
  C5 fails on the code: the traceback of lines 78 and 79 is outside the test of \<open>DEBUG\<close>.
  With \<open>DEBUG\<close> unset, a descriptor whose name is bound to an object that is not callable
  makes the server print to standard error.
\<close>

theorem traceback_printed_without_debug:
  "env_DEBUG example_rt = None \<and>
   printed (snd (registerAll example_rt ''registry.json'' [config_tool] initial_server)) =
     [(Stderr, ''Traceback (most recent call last): 5 is not a callable object'')]"
  by (simp add: example_defs run_defs)

subsection \<open>C4: the code fence\<close>

lemma replace_nonempty_skip:
  assumes "old \<noteq> []" and "hd old \<notin> set s"
  shows "replace_nonempty old new (s @ t) = s @ replace_nonempty old new t"
  using assms(2)
proof (induction s)
  case Nil
  then show ?case by simp
next
  case (Cons c s)
  from Cons.prems assms(1) have "\<not> prefix old (c # s @ t)"
    by (cases old) auto
  with Cons show ?case by simp
qed

text \<open>The parts of C4 that hold: a text without a marker at either end is left as it
  is, and a fenced text whose body has no backquote is reduced to its body.\<close>

lemma strip_code_fence_unfenced:
  assumes "\<not> startswith s ''```python''" and "\<not> endswith s ''```''"
  shows "strip_code_fence s = s"
  using assms by (simp add: strip_code_fence_def)

lemma strip_code_fence_fenced:
  assumes "CHR 0x60 \<notin> set body"
  shows "strip_code_fence (''```python'' @ body @ ''```'') = body"
proof -
  have "replace_nonempty ''```python'' '''' (body @ ''```'') =
          body @ replace_nonempty ''```python'' '''' ''```''"
    using assms by (intro replace_nonempty_skip) simp_all
  then have first: "replace (''```python'' @ body @ ''```'') ''```python'' '''' = body @ ''```''"
    by (simp add: replace_def)
  have "replace_nonempty ''```'' '''' (body @ ''```'') = body @ replace_nonempty ''```'' '''' ''```''"
    using assms by (intro replace_nonempty_skip) simp_all
  then have second: "replace (body @ ''```'') ''```'' '''' = body"
    by (simp add: replace_def)
  have a: "startswith (''```python'' @ body @ ''```'') ''```python''"
    by (simp add: startswith_def)
  have b: "endswith (body @ ''```'') ''```''"
    unfolding endswith_def by (rule suffixI) simp
  show ?thesis
    by (simp only: strip_code_fence_def Let_def a b first second if_True)
qed

text \<open>
  C4 fails on the code: \<open>str.replace\<close> removes every occurrence of a marker, not the one
  at the end of the text that the test has found. A fenced script that builds a Markdown
  fence loses the marker inside its string literal.
\<close>

theorem inner_fence_markers_are_removed:
  "strip_code_fence (''```python'' @ [CHR 10] @ ''doc = '```sql' * 2'' @ [CHR 10] @ ''```'')
     = [CHR 10] @ ''doc = 'sql' * 2'' @ [CHR 10]"
  by (simp add: strip_code_fence_def startswith_def endswith_rev replace_def)

end
